theory Spec2Isabelle
  imports Complex_Main "HOL-Library.Word" "HOL-Library.Log_Nat"
begin

section \<open>Numbers and strings of the host language\<close>

text \<open>
  The program is TypeScript. Its \<^verbatim>\<open>number\<close> values are IEEE binary64 numbers,
  modelled as the reals they denote; \<open>Math.max\<close>, \<open>Math.min\<close> and \<open>Math.floor\<close> are
  \<^const>\<open>max\<close>, \<^const>\<open>min\<close> and \<^const>\<open>floor\<close>, which are exact.

  The crop rectangle is specified as a rectangle of real percentages, and its handlers
  only add, subtract, scale and compare: they are modelled over the reals, without
  rounding. The overlay takes the floor of products and quotients, where the rounding of
  the operands decides the integer: there each arithmetic operation rounds its exact
  result to the nearest number with a 53-bit significand, ties to the even one. The
  exponent range is not modelled (no overflow to \<^verbatim>\<open>Infinity\<close>, no subnormal numbers).

  A quotient whose divisor can be zero is never left to HOL's \<open>a / 0 = 0\<close>: either the
  divisor is assumed positive in the theorem, or the definition spells out what the
  program computes with an infinite quotient.
\<close>

definition binade :: "real \<Rightarrow> int" where
  \<comment> \<open>for \<open>x > 0\<close>, the exponent \<open>e\<close> with \<open>2\<^sup>e \<le> x < 2\<^sup>e\<^sup>+\<^sup>1\<close>\<close>
  "binade x = (if 1 \<le> x then int (floorlog 2 (nat \<lfloor>x\<rfloor>)) - 1
               else - int (floorlog 2 (nat (\<lceil>1 / x\<rceil> - 1))))"

definition roundHalfEven :: "real \<Rightarrow> int" where
  "roundHalfEven m =
     (let n = \<lfloor>m\<rfloor>; f = m - of_int n
      in if f < 1 / 2 then n else if 1 / 2 < f then n + 1 else if even n then n else n + 1)"

definition roundDouble :: "real \<Rightarrow> real" where
  \<comment> \<open>the nearest multiple of \<open>2\<^sup>e\<^sup>-\<^sup>5\<^sup>2\<close>, where \<open>e\<close> is the binade of \<open>|x|\<close>\<close>
  "roundDouble x =
     (if x = 0 then 0
      else (let a = \<bar>x\<bar>; u = 2 powi (binade a - 52)
            in sgn x * (of_int (roundHalfEven (a / u)) * u)))"

definition js_add :: "real \<Rightarrow> real \<Rightarrow> real" where
  "js_add a b = roundDouble (a + b)"

definition js_sub :: "real \<Rightarrow> real \<Rightarrow> real" where
  "js_sub a b = roundDouble (a - b)"

definition js_mul :: "real \<Rightarrow> real \<Rightarrow> real" where
  "js_mul a b = roundDouble (a * b)"

definition js_div :: "real \<Rightarrow> real \<Rightarrow> real" where
  \<comment> \<open>for a divisor other than zero\<close>
  "js_div a b = roundDouble (a / b)"

text \<open>Its \<^verbatim>\<open>string\<close> values are sequences of 16-bit code units.\<close>

type_synonym jsstring = "16 word list"

definition js :: "string \<Rightarrow> jsstring" where
  \<comment> \<open>an ASCII literal of the source as a sequence of code units\<close>
  "js s = map of_char s"

section \<open>The crop selection: \<^verbatim>\<open>components/ImageCropper.tsx\<close>\<close>

subsection \<open>Data\<close>

text \<open>
  The selection \<^verbatim>\<open>{ x, y, w, h }\<close> is held in percentages of the displayed image. The
  fields carry the suffix \<open>_pct\<close> here, as \<open>x\<close>, \<open>y\<close>, \<open>w\<close> and \<open>h\<close> are wanted as
  variable names.
\<close>

record Rect =
  x_pct :: real
  y_pct :: real
  w_pct :: real
  h_pct :: real

text \<open>\<^verbatim>\<open>dragStart\<close>, a client position in CSS pixels.\<close>

record Point =
  x_px :: real
  y_px :: real

text \<open>What the handlers read of a \<^verbatim>\<open>React.PointerEvent\<close>.\<close>

record PointerEvent =
  clientX :: real
  clientY :: real
  pointerId :: nat

text \<open>What the handlers read of \<^verbatim>\<open>containerRef.current.getBoundingClientRect()\<close>.\<close>

record BoundingRect =
  width :: real
  height :: real

text \<open>What \<^verbatim>\<open>performCrop\<close> reads of the image element.\<close>

record ImageElement =
  naturalWidth :: nat
  naturalHeight :: nat

text \<open>
  The type of the state variable \<^verbatim>\<open>action\<close> is
  \<^verbatim>\<open>'move' | 'nw' | 'ne' | 'sw' | 'se' | null\<close>: the five literals are a datatype and
  \<^verbatim>\<open>null\<close> is \<^const>\<open>None\<close>.
\<close>

datatype Action = Move | NW | NE | SW | SE

fun actionName :: "Action \<Rightarrow> string" where
  "actionName Move = ''move''"
| "actionName NW = ''nw''"
| "actionName NE = ''ne''"
| "actionName SW = ''sw''"
| "actionName SE = ''se''"

definition action_includes :: "Action \<Rightarrow> char \<Rightarrow> bool" where
  \<comment> \<open>\<^verbatim>\<open>action.includes(c)\<close> for a one-character string \<open>c\<close>\<close>
  "action_includes act c = (c \<in> set (actionName act))"

text \<open>
  Failures as values. \<open>InvalidArgument\<close> is the failure the specification names for the
  crop engine; \<open>JsError msg\<close> is \<^verbatim>\<open>new Error(msg)\<close>.
\<close>

datatype error = InvalidArgument | JsError string

text \<open>
  The component's state: the five \<^verbatim>\<open>useState\<close> cells, the two refs (\<^const>\<open>None\<close>
  is a ref whose \<^verbatim>\<open>current\<close> is \<^verbatim>\<open>null\<close>), and the pointer captured by
  \<^verbatim>\<open>setPointerCapture\<close>.
\<close>

record CropperState =
  crop :: Rect
  isDragging :: bool
  dragStart :: Point
  startCrop :: Rect
  action :: "Action option"
  containerRef :: "BoundingRect option"
  imageRef :: "ImageElement option"
  pointerCapture :: "nat option"

definition initialCrop :: Rect where
  \<comment> \<open>\<^verbatim>\<open>useState({ x: 0, y: 0, w: 100, h: 100 })\<close>\<close>
  "initialCrop = \<lparr>x_pct = 0, y_pct = 0, w_pct = 100, h_pct = 100\<rparr>"

definition initialState :: "BoundingRect option \<Rightarrow> ImageElement option \<Rightarrow> CropperState" where
  "initialState container img =
     \<lparr>crop = initialCrop,
      isDragging = False,
      dragStart = \<lparr>x_px = 0, y_px = 0\<rparr>,
      startCrop = \<lparr>x_pct = 0, y_pct = 0, w_pct = 0, h_pct = 0\<rparr>,
      action = None,
      containerRef = container,
      imageRef = img,
      pointerCapture = None\<rparr>"

subsection \<open>Pointer handlers\<close>

text \<open>
  \<^verbatim>\<open>handlePointerDown\<close> has no \<^verbatim>\<open>throw\<close>: every path of the model returns \<^const>\<open>Inr\<close>.
\<close>

definition handlePointerDown ::
  "CropperState \<Rightarrow> PointerEvent \<Rightarrow> Action option \<Rightarrow> error + CropperState" where
  "handlePointerDown st e act =
     (if containerRef st = None then Inr st
      else Inr (st\<lparr>isDragging := True,
                   dragStart := \<lparr>x_px = clientX e, y_px = clientY e\<rparr>,
                   startCrop := crop st,
                   action := act,
                   pointerCapture := Some (pointerId e)\<rparr>))"

text \<open>The four edges of the resize branch, in the order of the source.\<close>

definition resizeEast :: "Rect \<Rightarrow> real \<Rightarrow> Rect \<Rightarrow> Rect" where
  "resizeEast start deltaX newCrop =
     newCrop\<lparr>w_pct := max 10 (min (100 - x_pct start) (w_pct start + deltaX))\<rparr>"

definition resizeSouth :: "Rect \<Rightarrow> real \<Rightarrow> Rect \<Rightarrow> Rect" where
  "resizeSouth start deltaY newCrop =
     newCrop\<lparr>h_pct := max 10 (min (100 - y_pct start) (h_pct start + deltaY))\<rparr>"

definition resizeWest :: "Rect \<Rightarrow> real \<Rightarrow> Rect \<Rightarrow> Rect" where
  "resizeWest start deltaX newCrop =
     (let maxDelta = w_pct start - 10;
          validDelta = min maxDelta deltaX
      in newCrop\<lparr>x_pct := max 0 (x_pct start + validDelta),
                  w_pct := w_pct start - validDelta\<rparr>)"

definition resizeNorth :: "Rect \<Rightarrow> real \<Rightarrow> Rect \<Rightarrow> Rect" where
  "resizeNorth start deltaY newCrop =
     (let maxDelta = h_pct start - 10;
          validDelta = min maxDelta deltaY
      in newCrop\<lparr>y_pct := max 0 (y_pct start + validDelta),
                  h_pct := h_pct start - validDelta\<rparr>)"

text \<open>
  The rectangle that \<^verbatim>\<open>handlePointerMove\<close> computes from the start rectangle and the
  two deltas (the specification's \<open>updateGesture\<close>).
\<close>

definition updateGesture :: "Action \<Rightarrow> Rect \<Rightarrow> real \<Rightarrow> real \<Rightarrow> Rect" where
  "updateGesture act start deltaX deltaY =
     (if act = Move then
        start\<lparr>x_pct := max 0 (min (100 - w_pct start) (x_pct start + deltaX)),
              y_pct := max 0 (min (100 - h_pct start) (y_pct start + deltaY))\<rparr>
      else
        (let c1 = (if action_includes act CHR ''e'' then resizeEast start deltaX start else start);
             c2 = (if action_includes act CHR ''s'' then resizeSouth start deltaY c1 else c1);
             c3 = (if action_includes act CHR ''w'' then resizeWest start deltaX c2 else c2);
             c4 = (if action_includes act CHR ''n'' then resizeNorth start deltaY c3 else c3)
         in c4))"

definition pointerDelta :: "real \<Rightarrow> real \<Rightarrow> real \<Rightarrow> real" where
  \<comment> \<open>\<^verbatim>\<open>((client - origin) / extent) * 100\<close>; the extent of the container is positive where this is used\<close>
  "pointerDelta client origin extent = ((client - origin) / extent) * 100"

definition handlePointerMove :: "CropperState \<Rightarrow> PointerEvent \<Rightarrow> CropperState" where
  "handlePointerMove st e =
     (case (isDragging st, containerRef st, action st) of
        (True, Some containerRect, Some act) \<Rightarrow>
          (let deltaX = pointerDelta (clientX e) (x_px (dragStart st)) (width containerRect);
               deltaY = pointerDelta (clientY e) (y_px (dragStart st)) (height containerRect)
           in st\<lparr>crop := updateGesture act (startCrop st) deltaX deltaY\<rparr>)
      | _ \<Rightarrow> st)"

definition handlePointerUp :: "CropperState \<Rightarrow> PointerEvent \<Rightarrow> CropperState" where
  "handlePointerUp st e = st\<lparr>isDragging := False, action := None, pointerCapture := None\<rparr>"

subsection \<open>Pixel mapping\<close>

text \<open>The four products at the head of \<^verbatim>\<open>performCrop\<close>.\<close>

record PixelRect =
  pixelX :: real
  pixelY :: real
  pixelW :: real
  pixelH :: real

definition rectToPixels :: "Rect \<Rightarrow> nat \<Rightarrow> nat \<Rightarrow> PixelRect" where
  "rectToPixels r naturalW naturalH =
     \<lparr>pixelX = (x_pct r / 100) * real naturalW,
      pixelY = (y_pct r / 100) * real naturalH,
      pixelW = (w_pct r / 100) * real naturalW,
      pixelH = (h_pct r / 100) * real naturalH\<rparr>"

subsection \<open>The rectangle's invariants and the specification's \<open>clamp\<close>\<close>

definition normalized :: "Rect \<Rightarrow> bool" where
  "normalized r \<longleftrightarrow>
     0 \<le> x_pct r \<and> 0 \<le> y_pct r \<and> x_pct r + w_pct r \<le> 100 \<and> y_pct r + h_pct r \<le> 100
     \<and> 10 \<le> w_pct r \<and> 10 \<le> h_pct r"

definition clamp :: "real \<Rightarrow> real \<Rightarrow> real \<Rightarrow> real" where
  \<comment> \<open>\<open>clamp(v, lo, hi)\<close> of the specification: the lower bound is applied last\<close>
  "clamp v lo hi = max lo (min hi v)"



section \<open>Canvas, encoder and export\<close>

text \<open>
  A canvas is its two dimensions, whether \<^verbatim>\<open>getContext('2d')\<close> yields a context, and
  the drawing calls made on that context, in order.
\<close>

datatype DrawOp =
    DrawImage real real real real
  | DrawImageRegion real real real real real real real real
  | SetFont int
  | SetFillStyle string
  | SetTextBaseline string
  | BeginPath
  | MoveTo real real
  | LineTo real real
  | QuadraticCurveTo real real real real
  | ClosePath
  | Fill
  | FillText jsstring real real

record Canvas =
  canvasWidth :: nat
  canvasHeight :: nat
  context2d :: bool
  drawn :: "DrawOp list"




section \<open>The overlay: \<^verbatim>\<open>utils/overlayUtils.ts\<close>\<close>

record TemperatureReadings =
  t1 :: jsstring
  t2 :: jsstring
  t3 :: jsstring
  t4 :: jsstring
  pt :: jsstring

subsection \<open>Text lines\<close>

definition isWhiteSpace :: "16 word \<Rightarrow> bool" where
  \<comment> \<open>the code units that \<^verbatim>\<open>String.prototype.trim\<close> strips: white space and line terminators\<close>
  "isWhiteSpace c \<longleftrightarrow>
     c \<in> {0x9, 0xA, 0xB, 0xC, 0xD, 0x20, 0xA0, 0x1680, 0x2028, 0x2029, 0x202F, 0x205F,
          0x3000, 0xFEFF}
     \<or> (0x2000 \<le> c \<and> c \<le> 0x200A)"

definition trim :: "jsstring \<Rightarrow> jsstring" where
  "trim s = rev (dropWhile isWhiteSpace (rev (dropWhile isWhiteSpace s)))"

definition degreeC :: jsstring where
  \<comment> \<open>the two code units \<^verbatim>\<open>U+00B0\<close> and \<^verbatim>\<open>C\<close> that end every line\<close>
  "degreeC = [0xB0] @ js ''C''"

definition overlayLines :: "TemperatureReadings \<Rightarrow> jsstring list" where
  "overlayLines readings =
     (let lines = [js ''T1: '' @ t1 readings @ degreeC,
                   js ''T2: '' @ t2 readings @ degreeC,
                   js ''T3: '' @ t3 readings @ degreeC,
                   js ''T4: '' @ t4 readings @ degreeC]
      in if pt readings \<noteq> [] \<and> trim (pt readings) \<noteq> []
         then lines @ [js ''P.T: '' @ pt readings @ degreeC]
         else lines)"

text \<open>
  The specification's wording of one line, for comparison: \<open>"<KEY>: <value>\<degree>C"\<close> with
  the key upper-cased. The keys are ASCII.
\<close>

definition toUpperCase :: "jsstring \<Rightarrow> jsstring" where
  "toUpperCase s = map (\<lambda>c. if 0x61 \<le> c \<and> c \<le> 0x7A then c - 0x20 else c) s"

definition specLine :: "string \<Rightarrow> jsstring \<Rightarrow> jsstring" where
  "specLine key v = toUpperCase (js key) @ js '': '' @ v @ degreeC"

subsection \<open>Downscale guard\<close>

definition MAX_DIMENSION :: nat where
  "MAX_DIMENSION = 2560"

text \<open>
  \<^verbatim>\<open>Math.min(MAX_DIMENSION / drawWidth, MAX_DIMENSION / drawHeight)\<close>. A natural
  dimension of zero makes its quotient \<^verbatim>\<open>Infinity\<close>, and the minimum is then the other
  quotient. The ratio is computed only when one dimension exceeds \<^const>\<open>MAX_DIMENSION\<close>,
  so the two are never both zero.
\<close>

definition scaleRatio :: "nat \<Rightarrow> nat \<Rightarrow> real" where
  "scaleRatio drawWidth drawHeight =
     (if drawWidth = 0 then js_div (real MAX_DIMENSION) (real drawHeight)
      else if drawHeight = 0 then js_div (real MAX_DIMENSION) (real drawWidth)
      else min (js_div (real MAX_DIMENSION) (real drawWidth))
               (js_div (real MAX_DIMENSION) (real drawHeight)))"

definition drawSize :: "nat \<Rightarrow> nat \<Rightarrow> nat \<times> nat" where
  "drawSize drawWidth drawHeight =
     (if drawWidth > MAX_DIMENSION \<or> drawHeight > MAX_DIMENSION then
        (let ratio = scaleRatio drawWidth drawHeight
         in (nat \<lfloor>js_mul (real drawWidth) ratio\<rfloor>, nat \<lfloor>js_mul (real drawHeight) ratio\<rfloor>))
      else (drawWidth, drawHeight))"

subsection \<open>Drawing\<close>

definition roundedRect :: "real \<Rightarrow> real \<Rightarrow> real \<Rightarrow> real \<Rightarrow> real \<Rightarrow> DrawOp list" where
  "roundedRect boxX boxY boxWidth boxHeight radius =
     (let right = js_add boxX boxWidth;
          bottom = js_add boxY boxHeight
      in [BeginPath,
          MoveTo (js_add boxX radius) boxY,
          LineTo (js_sub right radius) boxY,
          QuadraticCurveTo right boxY right (js_add boxY radius),
          LineTo right (js_sub bottom radius),
          QuadraticCurveTo right bottom (js_sub right radius) bottom,
          LineTo (js_add boxX radius) bottom,
          QuadraticCurveTo boxX bottom boxX (js_sub bottom radius),
          LineTo boxX (js_add boxY radius),
          QuadraticCurveTo boxX boxY (js_add boxX radius) boxY,
          ClosePath,
          Fill])"

definition maxTextWidth :: "(jsstring \<Rightarrow> real) \<Rightarrow> jsstring list \<Rightarrow> real" where
  "maxTextWidth widthOf lines =
     foldl (\<lambda>m line. if widthOf line > m then widthOf line else m) 0 lines"

text \<open>
  \<^verbatim>\<open>drawOverlayOnBitmap\<close>. \<open>measureText fontSize line\<close> is the width the browser
  measures for a line in the bold sans-serif font of that size. Assigning the canvas
  dimensions clears what was drawn before. In \<open>roundedRect\<close>, \<open>right\<close> and \<open>bottom\<close>
  name the sums \<^verbatim>\<open>boxX + boxWidth\<close> and \<^verbatim>\<open>boxY + boxHeight\<close> that the source writes
  out at each use. The function has no \<^verbatim>\<open>throw\<close>.
\<close>

definition drawOverlayOnBitmap ::
  "(int \<Rightarrow> jsstring \<Rightarrow> real) \<Rightarrow> Canvas \<Rightarrow> ImageElement \<Rightarrow> TemperatureReadings \<Rightarrow> real
     \<Rightarrow> error + Canvas" where
  "drawOverlayOnBitmap measureText canvas img readings fontScale =
     (if \<not> context2d canvas then Inr canvas
      else
        (let (drawWidth, drawHeight) = drawSize (naturalWidth img) (naturalHeight img);
             w = drawWidth;
             baseSize = js_mul (real w) (roundDouble (3 / 100));
             fontSize = max 24 \<lfloor>js_mul baseSize fontScale\<rfloor>;
             lineHeight = js_mul (real_of_int fontSize) (roundDouble (14 / 10));
             padding = real_of_int fontSize;
             margin = real_of_int fontSize;
             lines = overlayLines readings;
             boxWidth = js_add (maxTextWidth (measureText fontSize) lines) (js_mul padding 2);
             boxHeight = js_add (js_mul (real (length lines)) lineHeight) (js_mul padding 2);
             boxX = margin;
             boxY = margin;
             radius = js_mul (real_of_int fontSize) (1 / 2)
         in Inr (canvas\<lparr>canvasWidth := drawWidth,
                        canvasHeight := drawHeight,
                        drawn :=
                          [DrawImage 0 0 (real drawWidth) (real drawHeight),
                           SetFont fontSize,
                           SetFillStyle ''rgba(0, 0, 0, 0.6)'']
                          @ roundedRect boxX boxY boxWidth boxHeight radius
                          @ [SetFillStyle ''#FFFFFF'', SetTextBaseline ''top'']
                          @ map (\<lambda>(index, line).
                                   FillText line (js_add boxX padding)
                                     (js_add (js_add boxY padding)
                                        (js_mul (real index) lineHeight)))
                              (enumerate 0 lines)\<rparr>)))"


section \<open>Inputs used in the examples\<close>

definition exampleContainer :: BoundingRect where
  "exampleContainer = \<lparr>width = 200, height = 100\<rparr>"

definition draggingState :: "Action \<Rightarrow> Rect \<Rightarrow> CropperState" where
  "draggingState act r =
     \<lparr>crop = r, isDragging = True, dragStart = \<lparr>x_px = 100, y_px = 50\<rparr>, startCrop = r,
      action = Some act, containerRef = Some exampleContainer, imageRef = None,
      pointerCapture = Some 1\<rparr>"

definition pointerAt :: "real \<Rightarrow> real \<Rightarrow> PointerEvent" where
  "pointerAt cx cy = \<lparr>clientX = cx, clientY = cy, pointerId = 1\<rparr>"

definition exampleReadings :: "jsstring \<Rightarrow> TemperatureReadings" where
  "exampleReadings p = \<lparr>t1 = js ''20.1'', t2 = js ''21'', t3 = js ''19.5'', t4 = js ''22'', pt = p\<rparr>"

definition blankCanvas :: "bool \<Rightarrow> Canvas" where
  \<comment> \<open>a canvas as \<^verbatim>\<open>document.createElement('canvas')\<close> makes it: 300 by 150, nothing drawn\<close>
  "blankCanvas has2d = \<lparr>canvasWidth = 300, canvasHeight = 150, context2d = has2d, drawn = []\<rparr>"


section \<open>Properties of the crop selection\<close>

lemma clamp_cases:
  "lo \<le> hi \<Longrightarrow> clamp v lo hi = (if v < lo then lo else if hi < v then hi else v)"
  by (simp add: clamp_def max_def min_def)

lemma action_includes_simps:
  "action_includes NW c \<longleftrightarrow> c = CHR ''n'' \<or> c = CHR ''w''"
  "action_includes NE c \<longleftrightarrow> c = CHR ''n'' \<or> c = CHR ''e''"
  "action_includes SW c \<longleftrightarrow> c = CHR ''s'' \<or> c = CHR ''w''"
  "action_includes SE c \<longleftrightarrow> c = CHR ''s'' \<or> c = CHR ''e''"
  by (auto simp: action_includes_def)

lemma updateGesture_NW:
  "updateGesture NW start dX dY = resizeNorth start dY (resizeWest start dX start)"
  by (simp add: updateGesture_def action_includes_simps)

lemma updateGesture_NE:
  "updateGesture NE start dX dY = resizeNorth start dY (resizeEast start dX start)"
  by (simp add: updateGesture_def action_includes_simps)

lemma updateGesture_SW:
  "updateGesture SW start dX dY = resizeWest start dX (resizeSouth start dY start)"
  by (simp add: updateGesture_def action_includes_simps)

lemma updateGesture_SE:
  "updateGesture SE start dX dY = resizeSouth start dY (resizeEast start dX start)"
  by (simp add: updateGesture_def action_includes_simps)

lemma updateGesture_Move:
  "updateGesture Move start dX dY =
     start\<lparr>x_pct := max 0 (min (100 - w_pct start) (x_pct start + dX)),
           y_pct := max 0 (min (100 - h_pct start) (y_pct start + dY))\<rparr>"
  by (simp add: updateGesture_def)

text \<open>
  C7. For every natural width and height, the pixel mapping of the full-frame default
  rectangle \<open>{0, 0, 100, 100}\<close> is exactly \<open>{0, 0, naturalWidth, naturalHeight}\<close>.
\<close>

theorem rectToPixels_full_frame:
  "rectToPixels initialCrop nw nh =
     \<lparr>pixelX = 0, pixelY = 0, pixelW = real nw, pixelH = real nh\<rparr>"
  by (simp add: rectToPixels_def initialCrop_def)

lemma handlePointerMove_crop:
  assumes "isDragging st" and "action st = Some act" and "containerRef st = Some box"
  shows "handlePointerMove st e =
           st\<lparr>crop := updateGesture act (startCrop st)
                  (pointerDelta (clientX e) (x_px (dragStart st)) (width box))
                  (pointerDelta (clientY e) (y_px (dragStart st)) (height box))\<rparr>"
  using assms by (simp add: handlePointerMove_def)

lemma handlePointerMove_idle:
  "\<not> isDragging st \<or> containerRef st = None \<or> action st = None \<Longrightarrow> handlePointerMove st e = st"
  by (auto simp: handlePointerMove_def split: bool.splits option.splits)

lemma draggingState_simps:
  "isDragging (draggingState act r) = True"
  "action (draggingState act r) = Some act"
  "containerRef (draggingState act r) = Some exampleContainer"
  "startCrop (draggingState act r) = r"
  "crop (draggingState act r) = r"
  "dragStart (draggingState act r) = \<lparr>x_px = 100, y_px = 50\<rparr>"
  by (simp_all add: draggingState_def)

subsection \<open>Bounds of the rectangle\<close>

text \<open>
  The move branch and the east and south edges keep a normalized rectangle normalized:
  each clamps against the far side of the frame.
\<close>

lemma updateGesture_Move_normalized:
  "normalized start \<Longrightarrow> normalized (updateGesture Move start dX dY)"
  by (auto simp: normalized_def updateGesture_Move)

lemma updateGesture_SE_normalized:
  "normalized start \<Longrightarrow> normalized (updateGesture SE start dX dY)"
  by (auto simp: normalized_def updateGesture_SE resizeEast_def resizeSouth_def)

text \<open>
  C1. The claim: every gesture update from a rectangle that satisfies the invariants
  (\<open>0 \<le> x\<close>, \<open>0 \<le> y\<close>, \<open>x + w \<le> 100\<close>, \<open>y + h \<le> 100\<close>, \<open>w \<ge> 10\<close>, \<open>h \<ge> 10\<close>)
  returns a rectangle that satisfies them. The west edge does not: pressing the
  north-west handle on the full-frame default rectangle at \<open>(100, 50)\<close> in a container
  200 wide and 100 high, and moving the pointer to \<open>(0, 50)\<close>, gives \<open>deltaX = -50\<close>; the
  origin is held at \<open>x = 0\<close> while the width grows to 150, so \<open>x + w = 150 > 100\<close>.
\<close>

theorem west_drag_leaves_frame:
  "handlePointerDown (initialState (Some exampleContainer) None) (pointerAt 100 50) (Some NW)
     = Inr (draggingState NW initialCrop)
   \<and> normalized (crop (draggingState NW initialCrop))
   \<and> crop (handlePointerMove (draggingState NW initialCrop) (pointerAt 0 50))
       = \<lparr>x_pct = 0, y_pct = 0, w_pct = 150, h_pct = 100\<rparr>
   \<and> \<not> normalized (crop (handlePointerMove (draggingState NW initialCrop) (pointerAt 0 50)))"
proof -
  have down: "handlePointerDown (initialState (Some exampleContainer) None) (pointerAt 100 50) (Some NW)
     = Inr (draggingState NW initialCrop)"
    by (simp add: handlePointerDown_def initialState_def pointerAt_def draggingState_def)
  have before: "normalized (crop (draggingState NW initialCrop))"
    by (simp add: draggingState_simps normalized_def initialCrop_def)
  have after: "crop (handlePointerMove (draggingState NW initialCrop) (pointerAt 0 50))
       = \<lparr>x_pct = 0, y_pct = 0, w_pct = 150, h_pct = 100\<rparr>"
    by (simp add: handlePointerMove_crop [where act = NW and box = exampleContainer]
          draggingState_simps pointerAt_def exampleContainer_def pointerDelta_def
          updateGesture_NW resizeWest_def resizeNorth_def initialCrop_def Let_def)
  have "\<not> normalized \<lparr>x_pct = 0, y_pct = 0, w_pct = 150, h_pct = 100\<rparr>"
    by (simp add: normalized_def)
  with down before after show ?thesis by simp
qed

subsection \<open>Move\<close>

text \<open>
  C4. Every update of a move gesture returns a rectangle with the \<open>w\<close> and \<open>h\<close> of the
  start rectangle, and with \<open>x = clamp(startRect.x + deltaX, 0, 100 - startRect.w)\<close> and
  \<open>y = clamp(startRect.y + deltaY, 0, 100 - startRect.h)\<close>, where the deltas are the
  pointer's displacement in percent of the container.
\<close>

theorem move_translates_only:
  assumes "isDragging st" and "action st = Some Move" and "containerRef st = Some box"
    and "0 < width box" and "0 < height box"
  shows "(let deltaX = ((clientX e - x_px (dragStart st)) / width box) * 100;
              deltaY = ((clientY e - y_px (dragStart st)) / height box) * 100;
              r = crop (handlePointerMove st e)
          in w_pct r = w_pct (startCrop st) \<and> h_pct r = h_pct (startCrop st)
             \<and> x_pct r = clamp (x_pct (startCrop st) + deltaX) 0 (100 - w_pct (startCrop st))
             \<and> y_pct r = clamp (y_pct (startCrop st) + deltaY) 0 (100 - h_pct (startCrop st)))"
  using assms(1-3)
  by (simp add: handlePointerMove_crop updateGesture_Move clamp_def pointerDelta_def Let_def)

theorem move_translates_only_witness:
  "isDragging (draggingState Move \<lparr>x_pct = 10, y_pct = 20, w_pct = 50, h_pct = 40\<rparr>)
   \<and> action (draggingState Move \<lparr>x_pct = 10, y_pct = 20, w_pct = 50, h_pct = 40\<rparr>) = Some Move
   \<and> containerRef (draggingState Move \<lparr>x_pct = 10, y_pct = 20, w_pct = 50, h_pct = 40\<rparr>)
       = Some exampleContainer
   \<and> 0 < width exampleContainer \<and> 0 < height exampleContainer
   \<and> crop (handlePointerMove (draggingState Move \<lparr>x_pct = 10, y_pct = 20, w_pct = 50, h_pct = 40\<rparr>)
              (pointerAt 300 20))
       = \<lparr>x_pct = 50, y_pct = 0, w_pct = 50, h_pct = 40\<rparr>"
proof -
  let ?st = "draggingState Move \<lparr>x_pct = 10, y_pct = 20, w_pct = 50, h_pct = 40\<rparr>"
  have h1: "isDragging ?st" by (simp add: draggingState_simps)
  have h2: "action ?st = Some Move" by (simp add: draggingState_simps)
  have h3: "containerRef ?st = Some exampleContainer" by (simp add: draggingState_simps)
  have h4: "0 < width exampleContainer" by (simp add: exampleContainer_def)
  have h5: "0 < height exampleContainer" by (simp add: exampleContainer_def)
  have "crop (handlePointerMove ?st (pointerAt 300 20))
          = \<lparr>x_pct = 50, y_pct = 0, w_pct = 50, h_pct = 40\<rparr>"
    using move_translates_only [OF h1 h2 h3 h4 h5, of "pointerAt 300 20"]
    by (simp add: draggingState_simps Let_def clamp_def pointerAt_def exampleContainer_def)
  with h1 h2 h3 h4 h5 show ?thesis by simp
qed

subsection \<open>West and north edges\<close>

text \<open>
  C5. A west-edge resize (actions \<open>nw\<close>, \<open>sw\<close>) from a start rectangle with \<open>w \<ge> 10\<close> and
  \<open>x \<ge> 0\<close> returns, for any \<open>deltaX\<close>, \<open>x = max(0, startRect.x + validDelta)\<close> and
  \<open>w = startRect.w - validDelta\<close> with \<open>validDelta = min(startRect.w - 10, deltaX)\<close>, and
  these satisfy \<open>x \<ge> 0\<close> and \<open>w \<ge> 10\<close>. A north-edge resize (\<open>nw\<close>, \<open>ne\<close>) does the same
  on \<open>y\<close> and \<open>h\<close>.
\<close>

theorem west_north_resize_bounds:
  "((act = NW \<or> act = SW) \<and> 10 \<le> w_pct start \<and> 0 \<le> x_pct start \<longrightarrow>
      (let validDelta = min (w_pct start - 10) deltaX;
           r = updateGesture act start deltaX deltaY
       in x_pct r = max 0 (x_pct start + validDelta) \<and> w_pct r = w_pct start - validDelta
          \<and> 0 \<le> x_pct r \<and> 10 \<le> w_pct r))
   \<and> ((act = NW \<or> act = NE) \<and> 10 \<le> h_pct start \<and> 0 \<le> y_pct start \<longrightarrow>
      (let validDelta = min (h_pct start - 10) deltaY;
           r = updateGesture act start deltaX deltaY
       in y_pct r = max 0 (y_pct start + validDelta) \<and> h_pct r = h_pct start - validDelta
          \<and> 0 \<le> y_pct r \<and> 10 \<le> h_pct r))"
  by (auto simp: updateGesture_NW updateGesture_NE updateGesture_SW
        resizeWest_def resizeNorth_def resizeEast_def resizeSouth_def Let_def)

theorem west_north_resize_bounds_witness:
  "(NW = NW \<or> NW = SW) \<and> (NW = NW \<or> NW = NE)
   \<and> (10::real) \<le> w_pct \<lparr>x_pct = 20, y_pct = 30, w_pct = 40, h_pct = 50\<rparr>
   \<and> (0::real) \<le> x_pct \<lparr>x_pct = 20, y_pct = 30, w_pct = 40, h_pct = 50\<rparr>
   \<and> (10::real) \<le> h_pct \<lparr>x_pct = 20, y_pct = 30, w_pct = 40, h_pct = 50\<rparr>
   \<and> (0::real) \<le> y_pct \<lparr>x_pct = 20, y_pct = 30, w_pct = 40, h_pct = 50\<rparr>
   \<and> x_pct (updateGesture NW \<lparr>x_pct = 20, y_pct = 30, w_pct = 40, h_pct = 50\<rparr> 35 (-45)) = 50
   \<and> w_pct (updateGesture NW \<lparr>x_pct = 20, y_pct = 30, w_pct = 40, h_pct = 50\<rparr> 35 (-45)) = 10
   \<and> y_pct (updateGesture NW \<lparr>x_pct = 20, y_pct = 30, w_pct = 40, h_pct = 50\<rparr> 35 (-45)) = 0
   \<and> h_pct (updateGesture NW \<lparr>x_pct = 20, y_pct = 30, w_pct = 40, h_pct = 50\<rparr> 35 (-45)) = 95"
  using west_north_resize_bounds
          [of NW "\<lparr>x_pct = 20, y_pct = 30, w_pct = 40, h_pct = 50\<rparr>" 35 "-45"]
  by (simp add: Let_def)

subsection \<open>Starting a gesture\<close>

text \<open>
  C6, as claimed: \<open>handlePointerDown\<close> rejects an action outside the five kinds by
  signalling \<open>InvalidArgument\<close>. The one value outside the five kinds that the action type
  admits is \<^verbatim>\<open>null\<close>, and it is accepted: the session is recorded and nothing is
  signalled.
\<close>

theorem null_action_is_accepted:
  "handlePointerDown (initialState (Some exampleContainer) None) (pointerAt 100 50) None
     = Inr ((initialState (Some exampleContainer) None)
              \<lparr>isDragging := True, dragStart := \<lparr>x_px = 100, y_px = 50\<rparr>,
               startCrop := initialCrop, action := None, pointerCapture := Some 1\<rparr>)
   \<and> handlePointerDown (initialState (Some exampleContainer) None) (pointerAt 100 50) None
     \<noteq> Inl InvalidArgument"
  by (simp add: handlePointerDown_def initialState_def pointerAt_def)

text \<open>
  C6, amended. \<open>handlePointerDown\<close> signals no failure for any action its type admits
  (the five kinds and \<^verbatim>\<open>null\<close>). It never changes the crop rectangle. With no container
  mounted it changes nothing; otherwise it records the session: dragging, the pointer
  position, the current rectangle as start rectangle, and the action. After a
  \<^verbatim>\<open>null\<close> action a pointer move changes nothing.
\<close>

theorem handlePointerDown_never_fails:
  "\<exists>st'. handlePointerDown st e act = Inr st'
     \<and> crop st' = crop st
     \<and> (containerRef st = None \<longrightarrow> st' = st)
     \<and> (containerRef st \<noteq> None \<longrightarrow>
          isDragging st' \<and> action st' = act \<and> startCrop st' = crop st
          \<and> dragStart st' = \<lparr>x_px = clientX e, y_px = clientY e\<rparr>)
     \<and> (act = None \<longrightarrow> handlePointerMove st' e' = st')"
  by (auto simp: handlePointerDown_def handlePointerMove_idle)

theorem handlePointerDown_never_fails_witness:
  "containerRef (initialState (Some exampleContainer) None) \<noteq> None
   \<and> (\<exists>st'. handlePointerDown (initialState (Some exampleContainer) None) (pointerAt 100 50) None
               = Inr st'
        \<and> crop st' = initialCrop \<and> isDragging st' \<and> action st' = None
        \<and> startCrop st' = initialCrop
        \<and> handlePointerMove st' (pointerAt 0 50) = st')"
  using handlePointerDown_never_fails
          [of "initialState (Some exampleContainer) None" "pointerAt 100 50" None "pointerAt 0 50"]
  by (auto simp: initialState_def)

subsection \<open>Export\<close>



section \<open>Properties of the overlay\<close>

subsection \<open>Text lines\<close>

lemma trim_empty_iff: "trim s = [] \<longleftrightarrow> (\<forall>c \<in> set s. isWhiteSpace c)"
proof
  assume "trim s = []"
  then have all: "\<forall>c \<in> set (dropWhile isWhiteSpace s). isWhiteSpace c"
    by (simp add: trim_def)
  show "\<forall>c \<in> set s. isWhiteSpace c"
  proof (rule ccontr)
    assume "\<not> (\<forall>c \<in> set s. isWhiteSpace c)"
    then have ne: "dropWhile isWhiteSpace s \<noteq> []"
      by simp
    then have "\<not> isWhiteSpace (hd (dropWhile isWhiteSpace s))"
      by (rule hd_dropWhile)
    moreover have "hd (dropWhile isWhiteSpace s) \<in> set (dropWhile isWhiteSpace s)"
      using ne by simp
    ultimately show False using all by blast
  qed
next
  assume "\<forall>c \<in> set s. isWhiteSpace c"
  then have blank: "dropWhile isWhiteSpace s = []"
    by (rule dropWhile_eq_Nil_conv [THEN iffD2])
  show "trim s = []"
    unfolding trim_def blank by simp
qed

lemma specLine_keys:
  "specLine ''t1'' v = js ''T1: '' @ v @ degreeC"
  "specLine ''t2'' v = js ''T2: '' @ v @ degreeC"
  "specLine ''t3'' v = js ''T3: '' @ v @ degreeC"
  "specLine ''t4'' v = js ''T4: '' @ v @ degreeC"
  "specLine ''pt'' v = js ''PT: '' @ v @ degreeC"
  by (simp_all add: specLine_def toUpperCase_def js_def)

lemma overlayLines_blank:
  "list_all isWhiteSpace (pt r) \<Longrightarrow>
     overlayLines r = [js ''T1: '' @ t1 r @ degreeC, js ''T2: '' @ t2 r @ degreeC,
                       js ''T3: '' @ t3 r @ degreeC, js ''T4: '' @ t4 r @ degreeC]"
  using trim_empty_iff [of "pt r"] by (simp add: overlayLines_def Let_def list_all_iff)

lemma overlayLines_pt:
  "\<not> list_all isWhiteSpace (pt r) \<Longrightarrow>
     overlayLines r = [js ''T1: '' @ t1 r @ degreeC, js ''T2: '' @ t2 r @ degreeC,
                       js ''T3: '' @ t3 r @ degreeC, js ''T4: '' @ t4 r @ degreeC,
                       js ''P.T: '' @ pt r @ degreeC]"
  using trim_empty_iff [of "pt r"] by (auto simp: overlayLines_def Let_def list_all_iff)

lemma not_blank_12_5: "\<not> list_all isWhiteSpace (js ''12.5'')"
  by (simp add: js_def isWhiteSpace_def)

text \<open>
  C2, as claimed: with \<open>pt = "12.5"\<close> the fifth line is \<open>"PT: 12.5\<degree>C"\<close>, the key
  upper-cased. The source labels the line \<open>P.T\<close>: the fifth line is \<open>"P.T: 12.5\<degree>C"\<close>.
\<close>

theorem pt_label_differs_from_key:
  "length (overlayLines (exampleReadings (js ''12.5''))) = 5
   \<and> overlayLines (exampleReadings (js ''12.5'')) ! 4 = js ''P.T: 12.5'' @ [0xB0] @ js ''C''
   \<and> overlayLines (exampleReadings (js ''12.5'')) ! 4 \<noteq> js ''PT: 12.5'' @ [0xB0] @ js ''C''"
proof -
  have "\<not> list_all isWhiteSpace (pt (exampleReadings (js ''12.5'')))"
    using not_blank_12_5 by (simp add: exampleReadings_def)
  from overlayLines_pt [OF this] show ?thesis
    by (simp add: exampleReadings_def degreeC_def js_def)
qed

text \<open>
  C2, amended. The first four lines are those of \<open>t1\<close>, \<open>t2\<close>, \<open>t3\<close>, \<open>t4\<close> in this
  order, each \<open>"<KEY>: <value>\<degree>C"\<close> with the key upper-cased. Readings whose \<open>pt\<close> is
  empty or consists of white space give exactly these four lines. Any other \<open>pt\<close> gives
  five lines, the fifth being \<open>"P.T: <pt>\<degree>C"\<close> with the value as entered; for
  \<open>pt = "12.5"\<close> it is \<open>"P.T: 12.5\<degree>C"\<close>.
\<close>

theorem overlay_lines_format:
  "take 4 (overlayLines r)
     = [specLine ''t1'' (t1 r), specLine ''t2'' (t2 r), specLine ''t3'' (t3 r), specLine ''t4'' (t4 r)]
   \<and> (list_all isWhiteSpace (pt r) \<longrightarrow> length (overlayLines r) = 4)
   \<and> (\<not> list_all isWhiteSpace (pt r) \<longrightarrow>
        length (overlayLines r) = 5 \<and> overlayLines r ! 4 = js ''P.T: '' @ pt r @ degreeC)
   \<and> length (overlayLines (r\<lparr>pt := js ''12.5''\<rparr>)) = 5
   \<and> overlayLines (r\<lparr>pt := js ''12.5''\<rparr>) ! 4 = js ''P.T: 12.5'' @ [0xB0] @ js ''C''"
proof -
  have first4: "take 4 (overlayLines r)
     = [specLine ''t1'' (t1 r), specLine ''t2'' (t2 r), specLine ''t3'' (t3 r), specLine ''t4'' (t4 r)]"
    by (simp add: overlayLines_def specLine_keys Let_def)
  have blank: "list_all isWhiteSpace (pt r) \<longrightarrow> length (overlayLines r) = 4"
    by (simp add: overlayLines_blank)
  have filled: "\<not> list_all isWhiteSpace (pt r) \<longrightarrow>
        length (overlayLines r) = 5 \<and> overlayLines r ! 4 = js ''P.T: '' @ pt r @ degreeC"
    by (simp add: overlayLines_pt)
  have "\<not> list_all isWhiteSpace (pt (r\<lparr>pt := js ''12.5''\<rparr>))"
    using not_blank_12_5 by simp
  from overlayLines_pt [OF this]
  have ex: "length (overlayLines (r\<lparr>pt := js ''12.5''\<rparr>)) = 5
   \<and> overlayLines (r\<lparr>pt := js ''12.5''\<rparr>) ! 4 = js ''P.T: 12.5'' @ [0xB0] @ js ''C''"
    by (simp add: degreeC_def js_def)
  from first4 blank filled ex show ?thesis by blast
qed

theorem overlay_lines_format_witness:
  "list_all isWhiteSpace (pt (exampleReadings (js ''  '')))
   \<and> length (overlayLines (exampleReadings (js ''  ''))) = 4
   \<and> list_all isWhiteSpace (pt (exampleReadings []))
   \<and> length (overlayLines (exampleReadings [])) = 4
   \<and> \<not> list_all isWhiteSpace (pt (exampleReadings (js ''7'')))
   \<and> length (overlayLines (exampleReadings (js ''7''))) = 5
   \<and> overlayLines (exampleReadings (js ''7'')) ! 4 = js ''P.T: 7'' @ [0xB0] @ js ''C''"
  using overlay_lines_format [of "exampleReadings (js ''  '')"]
    overlay_lines_format [of "exampleReadings []"]
    overlay_lines_format [of "exampleReadings (js ''7'')"]
  by (simp add: exampleReadings_def js_def isWhiteSpace_def degreeC_def)

subsection \<open>Rounding\<close>

text \<open>
  The binade of a positive number brackets it between two powers of two, and the rounded
  number lies within half a unit in the last place of the exact one.
\<close>

lemma floorlog_real_bounds:
  assumes "0 < n"
  shows "(2::real) ^ (floorlog 2 n - 1) \<le> real n" and "real n + 1 \<le> 2 ^ floorlog 2 n"
proof -
  have "2 ^ (floorlog 2 n - 1) \<le> n" and lt: "n < 2 ^ floorlog 2 n"
    using floorlog_bounds [of n 2] assms by simp_all
  then show "(2::real) ^ (floorlog 2 n - 1) \<le> real n"
    by (metis of_nat_le_iff of_nat_numeral of_nat_power)
  from lt have "n + 1 \<le> 2 ^ floorlog 2 n" by simp
  then have "real (n + 1) \<le> real (2 ^ floorlog 2 n)" by (rule of_nat_mono)
  then show "real n + 1 \<le> 2 ^ floorlog 2 n" by simp
qed

lemma binade_bounds:
  assumes "0 < x"
  shows "2 powi (binade x) \<le> x \<and> x < 2 powi (binade x + 1)"
proof (cases "1 \<le> x")
  case True
  define n where "n = nat \<lfloor>x\<rfloor>"
  have n: "0 < n" "real n \<le> x" "x < real n + 1" using True by (simp_all add: n_def)
  have k: "0 < floorlog 2 n" using n by (simp add: floorlog_def)
  have e: "binade x = int (floorlog 2 n - 1)" using True k by (simp add: binade_def n_def)
  have e1: "binade x + 1 = int (floorlog 2 n)" using True k by (simp add: binade_def n_def)
  show ?thesis
    unfolding e1 unfolding e power_int_of_nat
    using floorlog_real_bounds [OF n(1)] n by linarith
next
  case False
  define y where "y = 1 / x"
  define m where "m = nat (\<lceil>y\<rceil> - 1)"
  have y: "1 < y" using False assms by (simp add: y_def)
  then have c: "2 \<le> \<lceil>y\<rceil>" by linarith
  have m: "0 < m" "real m < y" "y \<le> real m + 1" using c by (simp_all add: m_def) linarith+
  have k: "0 < floorlog 2 m" using m by (simp add: floorlog_def)
  have e: "binade x = - int (floorlog 2 m)" using False by (simp add: binade_def m_def y_def)
  have e1: "binade x + 1 = - int (floorlog 2 m - 1)" using k by (simp add: e)
  have lo: "(2::real) ^ (floorlog 2 m - 1) < y" and hi: "y \<le> 2 ^ floorlog 2 m"
    using floorlog_real_bounds [OF m(1)] m by linarith+
  have x: "x = 1 / y" using assms by (simp add: y_def)
  have "1 / 2 ^ floorlog 2 m \<le> x"
    unfolding x using hi y by (simp add: frac_le)
  moreover have "x < 1 / 2 ^ (floorlog 2 m - 1)"
    unfolding x using lo by (simp add: frac_less2)
  ultimately show ?thesis
    unfolding e1 unfolding e by (simp add: power_int_minus_divide)
qed

lemma roundHalfEven_error: "\<bar>of_int (roundHalfEven m) - m\<bar> \<le> 1 / 2"
  unfolding roundHalfEven_def Let_def by (auto simp: abs_if; linarith)

lemma roundDouble_error:
  assumes "x \<noteq> 0"
  shows "\<bar>roundDouble x - x\<bar> \<le> 2 powi (binade \<bar>x\<bar> - 53)"
proof -
  define u :: real where "u = 2 powi (binade \<bar>x\<bar> - 52)"
  have u: "0 < u" by (simp add: u_def)
  have half: "2 powi (binade \<bar>x\<bar> - 53) = u / 2"
    by (simp add: u_def power_int_diff)
  define n where "n = roundHalfEven (\<bar>x\<bar> / u)"
  have r: "roundDouble x = sgn x * (of_int n * u)"
    using assms by (simp add: roundDouble_def Let_def u_def n_def)
  have "\<bar>of_int n - \<bar>x\<bar> / u\<bar> \<le> 1 / 2"
    unfolding n_def by (rule roundHalfEven_error)
  then have "\<bar>of_int n - \<bar>x\<bar> / u\<bar> * u \<le> 1 / 2 * u"
    using u by (intro mult_right_mono) simp_all
  moreover have "of_int n * u - \<bar>x\<bar> = (of_int n - \<bar>x\<bar> / u) * u"
    using u by (simp add: left_diff_distrib)
  then have "\<bar>of_int n * u - \<bar>x\<bar>\<bar> = \<bar>of_int n - \<bar>x\<bar> / u\<bar> * u"
    using u by (simp only: abs_mult abs_of_pos)
  ultimately have bound: "\<bar>of_int n * u - \<bar>x\<bar>\<bar> \<le> u / 2"
    by simp
  have "\<bar>roundDouble x - x\<bar> = \<bar>of_int n * u - \<bar>x\<bar>\<bar>"
  proof (cases "0 < x")
    case True
    then show ?thesis by (simp add: r)
  next
    case False
    with assms have neg: "x < 0" by simp
    then have "roundDouble x - x = - (of_int n * u - \<bar>x\<bar>)"
      by (simp add: r)
    then show ?thesis by (simp only: abs_minus_cancel)
  qed
  with bound show ?thesis by (simp add: half)
qed

text \<open>The roundings that the examples below go through.\<close>

lemma binade_1: "binade (64 / 75) = - 1"
  by (simp add: binade_def compute_floorlog)

lemma roundDouble_1: "roundDouble (64 / 75) = 7686143364045647 / 9007199254740992"
  by (simp add: roundDouble_def binade_1 roundHalfEven_def Let_def)

lemma binade_2: "binade (128 / 75) = 0"
  by (simp add: binade_def compute_floorlog)

lemma roundDouble_2: "roundDouble (128 / 75) = 7686143364045647 / 4503599627370496"
  by (simp add: roundDouble_def binade_2 roundHalfEven_def Let_def)

lemma binade_3: "binade (2882303761517117625 / 1125899906842624) = 11"
  by (simp add: binade_def compute_floorlog)

lemma roundDouble_3: "roundDouble (2882303761517117625 / 1125899906842624) = 2560"
  by (simp add: roundDouble_def binade_3 roundHalfEven_def Let_def)

lemma binade_4: "binade (2882303761517117625 / 2251799813685248) = 10"
  by (simp add: binade_def compute_floorlog)

lemma roundDouble_4: "roundDouble (2882303761517117625 / 2251799813685248) = 1280"
  by (simp add: roundDouble_def binade_4 roundHalfEven_def Let_def)

lemma binade_5: "binade (32 / 125) = - 2"
  by (simp add: binade_def compute_floorlog)

lemma roundDouble_5: "roundDouble (32 / 125) = 1152921504606847 / 4503599627370496"
  by (simp add: roundDouble_def binade_5 roundHalfEven_def Let_def)

lemma binade_6: "binade (1280) = 10"
  by (simp add: binade_def compute_floorlog)

lemma roundDouble_6: "roundDouble (1280) = 1280"
  by (simp add: roundDouble_def binade_6 roundHalfEven_def Let_def)

lemma binade_7: "binade (720575940379279375 / 281474976710656) = 11"
  by (simp add: binade_def compute_floorlog)

lemma roundDouble_7: "roundDouble (720575940379279375 / 281474976710656) = 2560"
  by (simp add: roundDouble_def binade_7 roundHalfEven_def Let_def)

lemma binade_8: "binade (1152921504606847 / 2251799813685248) = - 1"
  by (simp add: binade_def compute_floorlog)

lemma roundDouble_8: "roundDouble (1152921504606847 / 2251799813685248) = 1152921504606847 / 2251799813685248"
  by (simp add: roundDouble_def binade_8 roundHalfEven_def Let_def)

lemma binade_9: "binade (2560 / 4183) = - 1"
  by (simp add: binade_def compute_floorlog)

lemma roundDouble_9: "roundDouble (2560 / 4183) = 344525909815577 / 562949953421312"
  by (simp add: roundDouble_def binade_9 roundHalfEven_def Let_def)

lemma binade_10: "binade (2560) = 11"
  by (simp add: binade_def compute_floorlog)

lemma roundDouble_10: "roundDouble (2560) = 2560"
  by (simp add: roundDouble_def binade_10 roundHalfEven_def Let_def)

lemma binade_11: "binade (1441151880758558591 / 562949953421312) = 11"
  by (simp add: binade_def compute_floorlog)

lemma roundDouble_11: "roundDouble (1441151880758558591 / 562949953421312) = 5629499534213119 / 2199023255552"
  by (simp add: roundDouble_def binade_11 roundHalfEven_def Let_def)

lemma binade_12: "binade (344525909815577 / 562949953421312) = - 1"
  by (simp add: binade_def compute_floorlog)

lemma roundDouble_12: "roundDouble (344525909815577 / 562949953421312) = 344525909815577 / 562949953421312"
  by (simp add: roundDouble_def binade_12 roundHalfEven_def Let_def)

lemma binade_13: "binade (1 / 2) = - 1"
  by (simp add: binade_def compute_floorlog)

lemma roundDouble_13: "roundDouble (1 / 2) = 1 / 2"
  by (simp add: roundDouble_def binade_13 roundHalfEven_def Let_def)

lemma binade_14: "binade (1) = 0"
  by (simp add: binade_def compute_floorlog)

lemma roundDouble_14: "roundDouble (1) = 1"
  by (simp add: roundDouble_def binade_14 roundHalfEven_def Let_def)

lemmas roundDouble_values = roundDouble_1 roundDouble_2 roundDouble_3 roundDouble_4 roundDouble_5 roundDouble_6 roundDouble_7 roundDouble_8 roundDouble_9 roundDouble_10 roundDouble_11 roundDouble_12 roundDouble_13 roundDouble_14

subsection \<open>Downscale guard\<close>

lemma drawOverlayOnBitmap_size:
  assumes "context2d canvas"
  shows "\<exists>out. drawOverlayOnBitmap measureText canvas img readings fontScale = Inr out
           \<and> (canvasWidth out, canvasHeight out) = drawSize (naturalWidth img) (naturalHeight img)"
  using assms by (simp add: drawOverlayOnBitmap_def Let_def split: prod.splits)


lemma drawSize_10000_2: "drawSize 10000 2 = (2560, 0)"
  by (simp add: drawSize_def scaleRatio_def MAX_DIMENSION_def js_div_def js_mul_def Let_def
        roundDouble_values)

text \<open>
  The rounding is observable. For a 4183 by 1 image the quotient \<open>2560 / 4183\<close> is rounded
  down, its product with 4183 rounds to the number just below 2560, and the width is 2559.
\<close>

lemma drawSize_4183_1: "drawSize 4183 1 = (2559, 0)"
  by (simp add: drawSize_def scaleRatio_def MAX_DIMENSION_def js_div_def js_mul_def Let_def
        roundDouble_values)



text \<open>
  C10. For a 10000 by 2 image the guard's floor gives a height of \<open>floor(2 * 0.256) = 0\<close>:
  the canvas that \<open>drawOverlayOnBitmap\<close> returns is 2560 wide and 0 high.
\<close>

theorem extreme_aspect_gives_zero_height:
  "drawSize 10000 2 = (2560, 0)
   \<and> (\<exists>out. drawOverlayOnBitmap measureText (blankCanvas True)
               \<lparr>naturalWidth = 10000, naturalHeight = 2\<rparr> readings fontScale = Inr out
        \<and> canvasWidth out = 2560 \<and> canvasHeight out = 0)"
proof -
  have "context2d (blankCanvas True)" by (simp add: blankCanvas_def)
  from drawOverlayOnBitmap_size [OF this, of measureText
      "\<lparr>naturalWidth = 10000, naturalHeight = 2\<rparr>" readings fontScale] drawSize_10000_2
  show ?thesis by auto
qed

subsection \<open>No rendering context\<close>

text \<open>
  C8. When the canvas yields no 2D context, \<open>drawOverlayOnBitmap\<close> returns without a
  failure and leaves the canvas as it was: dimensions unchanged, nothing drawn.
\<close>

theorem no_context_no_output:
  "\<not> context2d canvas \<Longrightarrow> drawOverlayOnBitmap measureText canvas img readings fontScale = Inr canvas"
  by (simp add: drawOverlayOnBitmap_def)

theorem no_context_no_output_witness:
  "\<not> context2d (blankCanvas False)
   \<and> drawOverlayOnBitmap (\<lambda>fontSize line. real (length line))  (blankCanvas False)
        \<lparr>naturalWidth = 3000, naturalHeight = 1500\<rparr> (exampleReadings (js ''12.5'')) 1
       = Inr \<lparr>canvasWidth = 300, canvasHeight = 150, context2d = False, drawn = []\<rparr>"
proof -
  have h: "\<not> context2d (blankCanvas False)" by (simp add: blankCanvas_def)
  show ?thesis
    using no_context_no_output [OF h, of "\<lambda>fontSize line. real (length line)"
        "\<lparr>naturalWidth = 3000, naturalHeight = 1500\<rparr>" "exampleReadings (js ''12.5'')" 1] h
    by (simp add: blankCanvas_def)
qed

end
